theory Spec2Isabelle
  imports Main
begin

section \<open>The amesh-iptables rule derivation (cmd/iptables/main.go)\<close>

subsection \<open>Chain names\<close>

definition InboundChain :: string where
  "InboundChain = ''APISIX_INBOUND''"

definition RedirectChain :: string where
  "RedirectChain = ''APISIX_REDIRECT''"

definition InboundRedirectChain :: string where
  "InboundRedirectChain = ''APISIX_INBOUND_REDIRECT''"

definition OutputChain :: string where
  "OutputChain = ''OUTPUT''"

definition PreRoutingChain :: string where
  "PreRoutingChain = ''PREROUTING''"

subsection \<open>The external collaborators: configuration, rule builder, backend\<close>

text \<open>
  The fields of \<^verbatim>\<open>iptablesconf.Config\<close> that main.go binds to flags or assigns.
  Go strings are byte sequences, as \<^typ>\<open>string\<close> is.
\<close>

record Config =
  InboundInterceptionMode :: string
  InboundCapturePort :: string
  ProxyPort :: string
  InboundPortsInclude :: string
  OutboundPortsInclude :: string
  InboundPortsExclude :: string
  OutboundPortsExclude :: string
  DryRun :: bool
  ProxyUID :: string
  ProxyGID :: string

text \<open>\<^verbatim>\<open>log.Command\<close>: main.go only ever passes \<^verbatim>\<open>log.UndefinedCommand\<close>.\<close>

datatype Command = UndefinedCommand

text \<open>
  One rule insertion as the builder records it: the chain, the table and the argument
  vector handed to \<^verbatim>\<open>AppendRuleV4\<close>.
\<close>

record Rule =
  command :: Command
  chain :: string
  table :: string
  params :: "string list"

text \<open>
  The builder of istio-iptables is a library outside this repository. It is modelled by its
  contract: an append-only accumulator with one ordered list of insertions per IP version.
\<close>

record IptablesBuilder =
  rulesv4 :: "Rule list"
  rulesv6 :: "Rule list"

definition NewIptablesBuilder :: "Config \<Rightarrow> IptablesBuilder" where
  "NewIptablesBuilder c = \<lparr>rulesv4 = [], rulesv6 = []\<rparr>"

definition AppendRuleV4 ::
  "Command \<Rightarrow> string \<Rightarrow> string \<Rightarrow> string list \<Rightarrow> IptablesBuilder \<Rightarrow> IptablesBuilder" where
  "AppendRuleV4 cmd ch tb ps b =
     b\<lparr>rulesv4 := rulesv4 b @ [\<lparr>command = cmd, chain = ch, table = tb, params = ps\<rparr>]\<rparr>"

text \<open>
  \<^verbatim>\<open>BuildV4\<close> serialises the IPv4 insertions into commands. How the library renders a
  rule list is a parameter \<open>buildRules\<close>; that it reads the IPv4 list is the method's name
  and contract.
\<close>

definition BuildV4 :: "(Rule list \<Rightarrow> string list list) \<Rightarrow> IptablesBuilder \<Rightarrow> string list list" where
  "BuildV4 buildRules b = buildRules (rulesv4 b)"

text \<open>
  The two execution backends of \<^verbatim>\<open>dependencies.Dependencies\<close>. What \<^verbatim>\<open>RunOrFail\<close> does
  is a parameter \<open>RunOrFail dep prog args\<close>: \<open>True\<close> when the call returns, \<open>False\<close> when it
  ends the process.
\<close>

datatype Dependencies = StdoutStubDependencies | RealDependencies

record iptablesConstructor =
  iptables :: IptablesBuilder
  cfg :: Config
  dep :: Dependencies

subsection \<open>Port lists: \<^verbatim>\<open>split\<close> and \<^verbatim>\<open>filterEmpty\<close>\<close>

text \<open>
  \<^verbatim>\<open>strings.Split(s, sep)\<close> of the Go library for a one-byte separator: the substrings
  between the separators, one more than there are separators; the empty string gives one
  empty substring.
\<close>

fun strings_Split :: "string \<Rightarrow> char \<Rightarrow> string list" where
  "strings_Split [] sep = [[]]"
| "strings_Split (x # xs) sep =
     (if x = sep then [] # strings_Split xs sep
      else (case strings_Split xs sep of
              [] \<Rightarrow> [[x]]
            | t # ts \<Rightarrow> (x # t) # ts))"

text \<open>\<^verbatim>\<open>strings.Join(elems, sep)\<close> for a one-byte separator; used to state idempotence.\<close>

fun strings_Join :: "string list \<Rightarrow> char \<Rightarrow> string" where
  "strings_Join [] sep = []"
| "strings_Join [t] sep = t"
| "strings_Join (t # u # ts) sep = t @ sep # strings_Join (u # ts) sep"

text \<open>The loop of \<^verbatim>\<open>filterEmpty\<close>, with \<open>filtered\<close> as its accumulator.\<close>

fun filterEmpty_loop :: "string list \<Rightarrow> string list \<Rightarrow> string list" where
  "filterEmpty_loop filtered [] = filtered"
| "filterEmpty_loop filtered (s # strs) =
     (if s = [] then filterEmpty_loop filtered strs
      else filterEmpty_loop (filtered @ [s]) strs)"

definition filterEmpty :: "string list \<Rightarrow> string list" where
  "filterEmpty strs = filterEmpty_loop [] strs"

definition split_ports :: "string \<Rightarrow> string list" where
  "split_ports s = (if s = [] then [] else filterEmpty (strings_Split s (CHR '','')))"

subsection \<open>The policy engine: \<^verbatim>\<open>run\<close> and its phases\<close>

text \<open>
  The methods mutate \<^verbatim>\<open>ic.iptables\<close> through the pointer; here each takes the constructor
  and returns it updated. A \<^verbatim>\<open>for _, port := range ports\<close> loop is a left fold over the
  ports.
\<close>

definition insertSkipRules :: "iptablesConstructor \<Rightarrow> iptablesConstructor" where
  "insertSkipRules ic =
     (let ic = ic\<lparr>iptables := AppendRuleV4 UndefinedCommand OutputChain ''nat''
                 [''-o'', ''lo'', ''!'', ''-d'', ''127.0.0.1/32'', ''-m'', ''owner'',
                  ''--uid-owner'', ProxyUID (cfg ic), ''-j'', ''RETURN''] (iptables ic)\<rparr>;
          ic = ic\<lparr>iptables := AppendRuleV4 UndefinedCommand OutputChain ''nat''
                 [''-m'', ''owner'', ''--gid-owner'', ProxyGID (cfg ic), ''-j'', ''RETURN'']
                 (iptables ic)\<rparr>
      in ic)"

definition insertInboundRules :: "iptablesConstructor \<Rightarrow> iptablesConstructor" where
  "insertInboundRules ic =
     (if InboundPortsInclude (cfg ic) = [] then ic
      else
        let ic = ic\<lparr>iptables := AppendRuleV4 UndefinedCommand PreRoutingChain ''nat''
                   [''-p'', ''tcp'', ''-j'', InboundChain] (iptables ic)\<rparr>
        in
          if InboundPortsInclude (cfg ic) = ''*'' then
            let ic = ic\<lparr>iptables := AppendRuleV4 UndefinedCommand InboundChain ''nat''
                       [''-p'', ''tcp'', ''--dport'', ''22'', ''-j'', ''RETURN''] (iptables ic)\<rparr>;
                ic = (if InboundPortsExclude (cfg ic) \<noteq> [] then
                        foldl (\<lambda>ic port.
                            ic\<lparr>iptables := AppendRuleV4 UndefinedCommand InboundChain ''nat''
                              [''-p'', ''tcp'', ''--dport'', port, ''-j'', ''RETURN'']
                              (iptables ic)\<rparr>)
                          ic (split_ports (InboundPortsExclude (cfg ic)))
                      else ic)
            in ic\<lparr>iptables := AppendRuleV4 UndefinedCommand InboundChain ''nat''
                   [''-p'', ''tcp'', ''-j'', InboundRedirectChain] (iptables ic)\<rparr>
          else
            foldl (\<lambda>ic port.
                ic\<lparr>iptables := AppendRuleV4 UndefinedCommand InboundChain ''nat''
                  [''-p'', ''tcp'', ''--dport'', port, ''-j'', InboundRedirectChain]
                  (iptables ic)\<rparr>)
              ic (split_ports (InboundPortsInclude (cfg ic))))"

definition insertOutboundRules :: "iptablesConstructor \<Rightarrow> iptablesConstructor" where
  "insertOutboundRules ic =
     (if OutboundPortsInclude (cfg ic) = [] then ic
      else if OutboundPortsInclude (cfg ic) = ''*'' then
        let ic = (if OutboundPortsExclude (cfg ic) \<noteq> [] then
                    foldl (\<lambda>ic port.
                        ic\<lparr>iptables := AppendRuleV4 UndefinedCommand OutputChain ''nat''
                          [''-p'', ''tcp'', ''--dport'', port, ''-j'', ''RETURN'']
                          (iptables ic)\<rparr>)
                      ic (split_ports (OutboundPortsExclude (cfg ic)))
                  else ic)
        in ic\<lparr>iptables := AppendRuleV4 UndefinedCommand OutputChain ''nat''
               [''-p'', ''tcp'', ''-j'', RedirectChain] (iptables ic)\<rparr>
      else
        foldl (\<lambda>ic port.
            ic\<lparr>iptables := AppendRuleV4 UndefinedCommand OutputChain ''nat''
              [''-p'', ''tcp'', ''--dport'', port, ''-j'', RedirectChain] (iptables ic)\<rparr>)
          ic (split_ports (OutboundPortsInclude (cfg ic))))"

text \<open>
  What ends the process: the panic of \<^verbatim>\<open>newCommand\<close> on a failed user lookup, the
  index-out-of-range panic of \<^verbatim>\<open>cmd[0]\<close> on an empty command, and a \<^verbatim>\<open>RunOrFail\<close>
  that does not return.
\<close>

datatype failure = LookupPanic string | IndexPanic | RunFailed "string list"

text \<open>
  The loop of \<^verbatim>\<open>executeCommand\<close> over the built commands; \<open>done\<close> collects the
  invocations handed to the backend so far, as program name and arguments.
\<close>

fun executeCommand_loop ::
  "(Dependencies \<Rightarrow> string \<Rightarrow> string list \<Rightarrow> bool) \<Rightarrow> Dependencies \<Rightarrow>
   (string \<times> string list) list \<Rightarrow> string list list \<Rightarrow> failure + (string \<times> string list) list" where
  "executeCommand_loop RunOrFail d done [] = Inr done"
| "executeCommand_loop RunOrFail d done (c # commands) =
     (if length c > 1 then
        (if RunOrFail d (c ! 0) (drop 1 c)
         then executeCommand_loop RunOrFail d (done @ [(c ! 0, drop 1 c)]) commands
         else Inl (RunFailed c))
      else if c = [] then Inl IndexPanic
      else
        (if RunOrFail d (c ! 0) []
         then executeCommand_loop RunOrFail d (done @ [(c ! 0, [])]) commands
         else Inl (RunFailed c)))"

definition executeCommand ::
  "(Rule list \<Rightarrow> string list list) \<Rightarrow> (Dependencies \<Rightarrow> string \<Rightarrow> string list \<Rightarrow> bool) \<Rightarrow>
   iptablesConstructor \<Rightarrow> failure + (string \<times> string list) list" where
  "executeCommand buildRules RunOrFail ic =
     (let commands = BuildV4 buildRules (iptables ic)
      in executeCommand_loop RunOrFail (dep ic) [] commands)"

text \<open>
  \<^verbatim>\<open>run\<close> returns the constructor as the four phases leave it, and what submitting the
  built commands came to.
\<close>

definition run ::
  "(Rule list \<Rightarrow> string list list) \<Rightarrow> (Dependencies \<Rightarrow> string \<Rightarrow> string list \<Rightarrow> bool) \<Rightarrow>
   iptablesConstructor \<Rightarrow> iptablesConstructor \<times> (failure + (string \<times> string list) list)" where
  "run buildRules RunOrFail ic =
     (let ic = ic\<lparr>iptables := AppendRuleV4 UndefinedCommand RedirectChain ''nat''
                 [''-p'', ''tcp'', ''-j'', ''REDIRECT'', ''--to-ports'', ProxyPort (cfg ic)]
                 (iptables ic)\<rparr>;
          ic = ic\<lparr>iptables := AppendRuleV4 UndefinedCommand InboundRedirectChain ''nat''
                 [''-p'', ''tcp'', ''-j'', ''REDIRECT'', ''--to-ports'', InboundCapturePort (cfg ic)]
                 (iptables ic)\<rparr>;
          ic = insertSkipRules ic;
          ic = insertInboundRules ic;
          ic = insertOutboundRules ic
      in (ic, executeCommand buildRules RunOrFail ic))"

subsection \<open>The command line: \<^verbatim>\<open>newCommand\<close>\<close>

text \<open>
  The flags \<^verbatim>\<open>newCommand\<close> registers, each with the variable it is bound to. There is no
  flag for \<^verbatim>\<open>cfg.ProxyUID\<close> or \<^verbatim>\<open>cfg.ProxyGID\<close>.
\<close>

record Flags =
  inbound_interception_mode :: string
  apisix_inbound_capture_port :: string
  apisix_port :: string
  inbound_ports :: string
  outbound_ports :: string
  inbound_exclude_ports :: string
  outbound_exclude_ports :: string
  dry_run :: bool
  apisix_user :: string

definition defaultFlags :: Flags where
  "defaultFlags =
     \<lparr>inbound_interception_mode = ''REDIRECT'', apisix_inbound_capture_port = ''9081'',
      apisix_port = ''9080'', inbound_ports = [], outbound_ports = [],
      inbound_exclude_ports = [], outbound_exclude_ports = [], dry_run = False,
      apisix_user = ''nobody''\<rparr>"

text \<open>
  \<^verbatim>\<open>cfg\<close> as the parsed flags leave it: a zero \<^verbatim>\<open>Config\<close> with the bound fields set.
\<close>

definition flagConfig :: "Flags \<Rightarrow> Config" where
  "flagConfig f =
     \<lparr>InboundInterceptionMode = inbound_interception_mode f,
      InboundCapturePort = apisix_inbound_capture_port f,
      ProxyPort = apisix_port f,
      InboundPortsInclude = inbound_ports f,
      OutboundPortsInclude = outbound_ports f,
      InboundPortsExclude = inbound_exclude_ports f,
      OutboundPortsExclude = outbound_exclude_ports f,
      DryRun = dry_run f,
      ProxyUID = [],
      ProxyGID = []\<rparr>"

text \<open>\<^verbatim>\<open>user.User\<close>, and \<^verbatim>\<open>user.Lookup\<close> as a parameter: \<open>Inl\<close> is the error it returns.\<close>

record User =
  Uid :: string
  Gid :: string

text \<open>The \<^verbatim>\<open>Run\<close> closure of the command, on the configuration and user name the flags set.\<close>

definition newCommand_Run ::
  "(string \<Rightarrow> string + User) \<Rightarrow> (Rule list \<Rightarrow> string list list) \<Rightarrow>
   (Dependencies \<Rightarrow> string \<Rightarrow> string list \<Rightarrow> bool) \<Rightarrow> Config \<Rightarrow> string \<Rightarrow>
   failure + iptablesConstructor \<times> (failure + (string \<times> string list) list)" where
  "newCommand_Run user_Lookup buildRules RunOrFail c proxyUser =
     (let d = (if DryRun c then StdoutStubDependencies else RealDependencies)
      in case user_Lookup proxyUser of
           Inl err \<Rightarrow> Inl (LookupPanic err)
         | Inr usr \<Rightarrow>
             let c = c\<lparr>ProxyUID := Uid usr\<rparr>;
                 c = c\<lparr>ProxyGID := Gid usr\<rparr>;
                 ic = \<lparr>iptables = NewIptablesBuilder c, cfg = c, dep = d\<rparr>
             in Inr (run buildRules RunOrFail ic))"

definition newCommand ::
  "(string \<Rightarrow> string + User) \<Rightarrow> (Rule list \<Rightarrow> string list list) \<Rightarrow>
   (Dependencies \<Rightarrow> string \<Rightarrow> string list \<Rightarrow> bool) \<Rightarrow> Flags \<Rightarrow>
   failure + iptablesConstructor \<times> (failure + (string \<times> string list) list)" where
  "newCommand user_Lookup buildRules RunOrFail f =
     newCommand_Run user_Lookup buildRules RunOrFail (flagConfig f) (apisix_user f)"

subsection \<open>The rules by name, and what a run is observed by\<close>

text \<open>
  The rule insertions the specification names, each as the record \<^verbatim>\<open>AppendRuleV4\<close> is
  handed in main.go: the two baseline redirect targets, the two skip rules, the inbound
  rules and the outbound rules.
\<close>

definition natRule :: "string \<Rightarrow> string list \<Rightarrow> Rule" where
  "natRule ch ps = \<lparr>command = UndefinedCommand, chain = ch, table = ''nat'', params = ps\<rparr>"

definition redirectRule :: "string \<Rightarrow> Rule" where
  "redirectRule port =
     natRule ''APISIX_REDIRECT'' [''-p'', ''tcp'', ''-j'', ''REDIRECT'', ''--to-ports'', port]"

definition inboundRedirectRule :: "string \<Rightarrow> Rule" where
  "inboundRedirectRule port =
     natRule ''APISIX_INBOUND_REDIRECT''
       [''-p'', ''tcp'', ''-j'', ''REDIRECT'', ''--to-ports'', port]"

definition skipUidRule :: "string \<Rightarrow> Rule" where
  "skipUidRule uid =
     natRule ''OUTPUT''
       [''-o'', ''lo'', ''!'', ''-d'', ''127.0.0.1/32'', ''-m'', ''owner'', ''--uid-owner'', uid,
        ''-j'', ''RETURN'']"

definition skipGidRule :: "string \<Rightarrow> Rule" where
  "skipGidRule gid = natRule ''OUTPUT'' [''-m'', ''owner'', ''--gid-owner'', gid, ''-j'', ''RETURN'']"

definition preroutingJumpRule :: Rule where
  "preroutingJumpRule = natRule ''PREROUTING'' [''-p'', ''tcp'', ''-j'', ''APISIX_INBOUND'']"

definition inboundReturnRule :: "string \<Rightarrow> Rule" where
  "inboundReturnRule port =
     natRule ''APISIX_INBOUND'' [''-p'', ''tcp'', ''--dport'', port, ''-j'', ''RETURN'']"

definition inboundCatchAllRule :: Rule where
  "inboundCatchAllRule =
     natRule ''APISIX_INBOUND'' [''-p'', ''tcp'', ''-j'', ''APISIX_INBOUND_REDIRECT'']"

definition inboundPortJumpRule :: "string \<Rightarrow> Rule" where
  "inboundPortJumpRule port =
     natRule ''APISIX_INBOUND''
       [''-p'', ''tcp'', ''--dport'', port, ''-j'', ''APISIX_INBOUND_REDIRECT'']"

definition outboundReturnRule :: "string \<Rightarrow> Rule" where
  "outboundReturnRule port =
     natRule ''OUTPUT'' [''-p'', ''tcp'', ''--dport'', port, ''-j'', ''RETURN'']"

definition outboundCatchAllRule :: Rule where
  "outboundCatchAllRule = natRule ''OUTPUT'' [''-p'', ''tcp'', ''-j'', ''APISIX_REDIRECT'']"

definition outboundPortJumpRule :: "string \<Rightarrow> Rule" where
  "outboundPortJumpRule port =
     natRule ''OUTPUT'' [''-p'', ''tcp'', ''--dport'', port, ''-j'', ''APISIX_REDIRECT'']"

text \<open>
  An inbound capture rule is a rule on \<^verbatim>\<open>PREROUTING\<close> or on the inbound chain. An outbound
  capture rule is a rule on \<^verbatim>\<open>OUTPUT\<close> that jumps TCP (all of it, or one destination port)
  to the redirect chain or returns on one destination port.
\<close>

definition inboundCapture :: "Rule \<Rightarrow> bool" where
  "inboundCapture r \<longleftrightarrow> chain r = ''PREROUTING'' \<or> chain r = ''APISIX_INBOUND''"

definition outboundCapture :: "Rule \<Rightarrow> bool" where
  "outboundCapture r \<longleftrightarrow>
     chain r = ''OUTPUT'' \<and>
     (params r = [''-p'', ''tcp'', ''-j'', ''APISIX_REDIRECT''] \<or>
      length (params r) = 6 \<and> take 3 (params r) = [''-p'', ''tcp'', ''--dport''] \<and>
      (drop 4 (params r) = [''-j'', ''APISIX_REDIRECT''] \<or>
       drop 4 (params r) = [''-j'', ''RETURN'']))"

text \<open>
  The engine on a configuration: \<^verbatim>\<open>run\<close> on the constructor \<^verbatim>\<open>newCommand\<close> builds, with a
  fresh builder. \<open>emitted\<close> is the ordered sequence of rule insertions it leaves in the
  builder, \<open>outcome\<close> what the submission of the commands came to.
\<close>

definition engine ::
  "(Rule list \<Rightarrow> string list list) \<Rightarrow> (Dependencies \<Rightarrow> string \<Rightarrow> string list \<Rightarrow> bool) \<Rightarrow>
   Dependencies \<Rightarrow> Config \<Rightarrow> iptablesConstructor \<times> (failure + (string \<times> string list) list)" where
  "engine buildRules RunOrFail d c =
     run buildRules RunOrFail \<lparr>iptables = NewIptablesBuilder c, cfg = c, dep = d\<rparr>"

definition emitted ::
  "(Rule list \<Rightarrow> string list list) \<Rightarrow> (Dependencies \<Rightarrow> string \<Rightarrow> string list \<Rightarrow> bool) \<Rightarrow>
   Dependencies \<Rightarrow> Config \<Rightarrow> Rule list" where
  "emitted buildRules RunOrFail d c = rulesv4 (iptables (fst (engine buildRules RunOrFail d c)))"

definition outcome ::
  "(Rule list \<Rightarrow> string list list) \<Rightarrow> (Dependencies \<Rightarrow> string \<Rightarrow> string list \<Rightarrow> bool) \<Rightarrow>
   Dependencies \<Rightarrow> Config \<Rightarrow> failure + (string \<times> string list) list" where
  "outcome buildRules RunOrFail d c = snd (engine buildRules RunOrFail d c)"

text \<open>
  The inbound and the outbound phase as section 4.2 of the specification words them, to
  compare with \<open>insertInboundRules\<close> and \<open>insertOutboundRules\<close>.
\<close>

definition inboundRules :: "Config \<Rightarrow> Rule list" where
  "inboundRules c =
     (if InboundPortsInclude c = [] then []
      else if InboundPortsInclude c = ''*'' then
        preroutingJumpRule # inboundReturnRule ''22'' #
          map inboundReturnRule (split_ports (InboundPortsExclude c)) @ [inboundCatchAllRule]
      else preroutingJumpRule # map inboundPortJumpRule (split_ports (InboundPortsInclude c)))"

definition outboundRules :: "Config \<Rightarrow> Rule list" where
  "outboundRules c =
     (if OutboundPortsInclude c = [] then []
      else if OutboundPortsInclude c = ''*'' then
        map outboundReturnRule (split_ports (OutboundPortsExclude c)) @ [outboundCatchAllRule]
      else map outboundPortJumpRule (split_ports (OutboundPortsInclude c)))"

definition scenarioA :: "Config \<Rightarrow> Config" where
  "scenarioA c =
     c\<lparr>InboundCapturePort := ''9081'', ProxyPort := ''9080'', InboundPortsInclude := ''*'',
       InboundPortsExclude := ''9081'', OutboundPortsInclude := [], ProxyUID := ''100'',
       ProxyGID := ''100''\<rparr>"

text \<open>
  A concrete builder rendering, backend and user database for the concrete runs below: one
  \<^verbatim>\<open>iptables\<close> command per insertion in append order (the contract section 6 of the
  specification gives for the builder), a backend whose every call returns, and a lookup
  that knows the user \<^verbatim>\<open>nobody\<close> only.
\<close>

definition oneCommandPerRule :: "Rule list \<Rightarrow> string list list" where
  "oneCommandPerRule rs = map (\<lambda>r. ''iptables'' # ''-t'' # table r # ''-A'' # chain r # params r) rs"

definition alwaysRuns :: "Dependencies \<Rightarrow> string \<Rightarrow> string list \<Rightarrow> bool" where
  "alwaysRuns d prog args = True"

definition exampleLookup :: "string \<Rightarrow> string + User" where
  "exampleLookup name =
     (if name = ''nobody'' then Inr \<lparr>Uid = ''65534'', Gid = ''65534''\<rparr>
      else Inl (''user: unknown user '' @ name))"

lemmas chain_defs =
  InboundChain_def RedirectChain_def InboundRedirectChain_def OutputChain_def PreRoutingChain_def

lemmas rule_defs =
  natRule_def redirectRule_def inboundRedirectRule_def skipUidRule_def skipGidRule_def
  preroutingJumpRule_def inboundReturnRule_def inboundCatchAllRule_def inboundPortJumpRule_def
  outboundReturnRule_def outboundCatchAllRule_def outboundPortJumpRule_def

section \<open>Properties of the port-list normalizer\<close>

lemma split_ports_Nil: "split_ports [] = []"
  by (simp add: split_ports_def)


lemma filterEmpty_loop_filter:
  "filterEmpty_loop acc strs = acc @ filter (\<lambda>s. s \<noteq> []) strs"
  by (induction strs arbitrary: acc) auto

lemma filterEmpty_filter: "filterEmpty strs = filter (\<lambda>s. s \<noteq> []) strs"
  by (simp add: filterEmpty_def filterEmpty_loop_filter)

lemma strings_Split_nonempty: "strings_Split s sep \<noteq> []"
  by (induction s) (auto split: list.splits)

lemma strings_Join_Cons:
  "ts \<noteq> [] \<Longrightarrow> strings_Join (t # ts) sep = t @ sep # strings_Join ts sep"
  by (cases ts) auto

lemma strings_Join_Split: "strings_Join (strings_Split s sep) sep = s"
proof (induction s)
  case Nil
  show ?case by simp
next
  case (Cons x xs)
  show ?case
  proof (cases "x = sep")
    case True
    with Cons show ?thesis
      by (simp add: strings_Join_Cons strings_Split_nonempty)
  next
    case False
    obtain t ts where ts: "strings_Split xs sep = t # ts"
      using strings_Split_nonempty [of xs sep] by (cases "strings_Split xs sep") auto
    with Cons False show ?thesis
      by (cases ts) auto
  qed
qed

lemma strings_Split_sep_free: "t \<in> set (strings_Split s sep) \<Longrightarrow> sep \<notin> set t"
  by (induction s arbitrary: t) (auto split: if_splits list.splits)

lemma strings_Split_length:
  "length (strings_Split s sep) = Suc (length (filter (\<lambda>c. c = sep) s))"
  by (induction s) (auto split: list.splits simp: strings_Split_nonempty)

lemma strings_Split_append_sep_free:
  "sep \<notin> set t \<Longrightarrow> strings_Split (t @ sep # s) sep = t # strings_Split s sep"
  by (induction t) auto

lemma strings_Split_sep_free_id: "sep \<notin> set t \<Longrightarrow> strings_Split t sep = [t]"
  by (induction t) auto

lemma strings_Split_Join:
  "ts \<noteq> [] \<Longrightarrow> \<forall>t\<in>set ts. sep \<notin> set t \<Longrightarrow> strings_Split (strings_Join ts sep) sep = ts"
proof (induction ts sep rule: strings_Join.induct)
  case (1 sep)
  then show ?case by simp
next
  case (2 t sep)
  then show ?case by (simp add: strings_Split_sep_free_id)
next
  case (3 t u ts sep)
  then show ?case by (simp add: strings_Split_append_sep_free)
qed

lemma split_ports_filter:
  "split_ports s = filter (\<lambda>t. t \<noteq> []) (strings_Split s (CHR '',''))"
  by (cases s) (simp_all add: split_ports_def filterEmpty_filter)

lemma split_ports_tokens:
  "t \<in> set (split_ports s) \<Longrightarrow> t \<noteq> [] \<and> CHR '','' \<notin> set t"
  by (auto simp: split_ports_filter dest: strings_Split_sep_free)

lemma strings_Join_eq_Nil:
  "\<forall>t\<in>set ts. t \<noteq> [] \<Longrightarrow> strings_Join ts sep = [] \<Longrightarrow> ts = []"
  by (induction ts sep rule: strings_Join.induct) auto

lemma split_ports_Join_tokens:
  assumes "\<forall>t\<in>set ts. t \<noteq> [] \<and> CHR '','' \<notin> set t"
  shows "split_ports (strings_Join ts (CHR '','')) = ts"
proof (cases "ts = []")
  case True
  then show ?thesis by (simp add: split_ports_def)
next
  case False
  with assms have "strings_Split (strings_Join ts (CHR '','')) (CHR '','') = ts"
    by (simp add: strings_Split_Join)
  moreover from assms have "filter (\<lambda>t. t \<noteq> []) ts = ts"
    by (simp add: filter_id_conv)
  ultimately show ?thesis by (simp add: split_ports_filter)
qed

text \<open>
  C8. The normalizer maps the empty string to the empty sequence and every string to its
  comma-split tokens (the comma-free pieces whose comma-join is the input) with the empty
  ones dropped, in order; \<open>80,,443,\<close> gives \<open>80\<close>, \<open>443\<close>; and normalizing the comma-join
  of a normalized list gives that list again.
\<close>

theorem split_ports_normalizer:
  "split_ports [] = []
   \<and> split_ports s = filter (\<lambda>t. t \<noteq> []) (strings_Split s (CHR '',''))
   \<and> strings_Join (strings_Split s (CHR '','')) (CHR '','') = s
   \<and> list_all (\<lambda>t. CHR '','' \<notin> set t) (strings_Split s (CHR '',''))
   \<and> split_ports ''80,,443,'' = [''80'', ''443'']
   \<and> split_ports (strings_Join (split_ports s) (CHR '','')) = split_ports s"
proof -
  have "split_ports ''80,,443,'' = [''80'', ''443'']"
    by (simp add: split_ports_def filterEmpty_def)
  moreover have "split_ports (strings_Join (split_ports s) (CHR '','')) = split_ports s"
    by (rule split_ports_Join_tokens) (simp add: split_ports_tokens)
  moreover have "list_all (\<lambda>t. CHR '','' \<notin> set t) (strings_Split s (CHR '',''))"
    by (simp add: list_all_iff strings_Split_sep_free)
  ultimately show ?thesis
    by (simp add: split_ports_filter strings_Join_Split split_ports_def)
qed

theorem split_ports_normalizer_witness:
  "split_ports ''8080,,,22,'' = [''8080'', ''22'']
   \<and> strings_Join (split_ports ''8080,,,22,'') (CHR '','') = ''8080,22''
   \<and> split_ports ''8080,22'' = split_ports ''8080,,,22,''"
proof -
  have a: "split_ports ''8080,,,22,'' = [''8080'', ''22'']"
    by (simp add: split_ports_def filterEmpty_def)
  have b: "strings_Join (split_ports ''8080,,,22,'') (CHR '','') = ''8080,22''"
    by (simp add: a)
  from split_ports_normalizer [of "''8080,,,22,''"] a b show ?thesis
    by simp
qed

section \<open>What the phases append\<close>

lemma foldl_snoc_rules:
  "foldl (\<lambda>ic port. ic\<lparr>iptables := (iptables ic)\<lparr>rulesv4 := rulesv4 (iptables ic) @ [g port]\<rparr>\<rparr>)
     ic ports
   = ic\<lparr>iptables := (iptables ic)\<lparr>rulesv4 := rulesv4 (iptables ic) @ map g ports\<rparr>\<rparr>"
  by (induction ports arbitrary: ic) simp_all

lemma insertSkipRules_rules:
  "insertSkipRules ic =
     ic\<lparr>iptables := (iptables ic)\<lparr>rulesv4 := rulesv4 (iptables ic) @
        [skipUidRule (ProxyUID (cfg ic)), skipGidRule (ProxyGID (cfg ic))]\<rparr>\<rparr>"
  by (simp add: insertSkipRules_def Let_def AppendRuleV4_def rule_defs chain_defs)

lemma insertInboundRules_rules:
  "insertInboundRules ic =
     ic\<lparr>iptables := (iptables ic)\<lparr>rulesv4 := rulesv4 (iptables ic) @ inboundRules (cfg ic)\<rparr>\<rparr>"
  by (simp add: insertInboundRules_def inboundRules_def Let_def AppendRuleV4_def foldl_snoc_rules
      rule_defs chain_defs split_ports_Nil)

lemma insertOutboundRules_rules:
  "insertOutboundRules ic =
     ic\<lparr>iptables := (iptables ic)\<lparr>rulesv4 := rulesv4 (iptables ic) @ outboundRules (cfg ic)\<rparr>\<rparr>"
  by (simp add: insertOutboundRules_def outboundRules_def Let_def AppendRuleV4_def foldl_snoc_rules
      rule_defs chain_defs split_ports_Nil)

lemma engine_fst:
  "fst (engine B R d c) =
     \<lparr>iptables = \<lparr>rulesv4 = [redirectRule (ProxyPort c), inboundRedirectRule (InboundCapturePort c),
         skipUidRule (ProxyUID c), skipGidRule (ProxyGID c)] @ inboundRules c @ outboundRules c,
         rulesv6 = []\<rparr>, cfg = c, dep = d\<rparr>"
  by (simp add: engine_def run_def Let_def insertSkipRules_rules insertInboundRules_rules
      insertOutboundRules_rules AppendRuleV4_def NewIptablesBuilder_def redirectRule_def
      inboundRedirectRule_def natRule_def chain_defs)

lemma emitted_rules:
  "emitted B R d c =
     [redirectRule (ProxyPort c), inboundRedirectRule (InboundCapturePort c),
      skipUidRule (ProxyUID c), skipGidRule (ProxyGID c)] @ inboundRules c @ outboundRules c"
  by (simp add: emitted_def engine_fst)

lemma outcome_commands:
  "outcome B R d c = executeCommand_loop R d [] (B (emitted B R d c))"
  by (simp add: outcome_def emitted_def engine_def run_def Let_def executeCommand_def BuildV4_def
      insertSkipRules_rules insertInboundRules_rules insertOutboundRules_rules)

lemma filter_map_all: "(\<And>x. P (f x)) \<Longrightarrow> filter P (map f xs) = map f xs"
  by (induction xs) simp_all

lemma filter_map_none: "(\<And>x. \<not> P (f x)) \<Longrightarrow> filter P (map f xs) = []"
  by (induction xs) simp_all

lemma inboundRules_chain:
  "filter (\<lambda>r. chain r = InboundChain) (inboundRules c) =
     (if InboundPortsInclude c = [] then []
      else if InboundPortsInclude c = ''*'' then
        inboundReturnRule ''22'' #
          map inboundReturnRule (split_ports (InboundPortsExclude c)) @ [inboundCatchAllRule]
      else map inboundPortJumpRule (split_ports (InboundPortsInclude c)))"
  by (simp add: inboundRules_def InboundChain_def filter_map_all preroutingJumpRule_def
      inboundReturnRule_def inboundCatchAllRule_def inboundPortJumpRule_def natRule_def)

lemma outboundRules_chain: "r \<in> set (outboundRules c) \<Longrightarrow> chain r = ''OUTPUT''"
  by (auto simp: outboundRules_def outboundReturnRule_def outboundCatchAllRule_def
      outboundPortJumpRule_def natRule_def split: if_splits)

lemma outboundRules_not_inbound_chain:
  "filter (\<lambda>r. chain r = InboundChain) (outboundRules c) = []"
  by (auto simp: filter_empty_conv InboundChain_def dest: outboundRules_chain)

lemma inbound_chain_emitted:
  "filter (\<lambda>r. chain r = InboundChain) (emitted B R d c) =
     filter (\<lambda>r. chain r = InboundChain) (inboundRules c)"
  by (simp add: emitted_rules outboundRules_not_inbound_chain)
     (simp add: InboundChain_def redirectRule_def inboundRedirectRule_def skipUidRule_def
        skipGidRule_def natRule_def)

lemma inboundRules_capture: "r \<in> set (inboundRules c) \<Longrightarrow> inboundCapture r"
  by (auto simp: inboundRules_def inboundCapture_def preroutingJumpRule_def inboundReturnRule_def
      inboundCatchAllRule_def inboundPortJumpRule_def natRule_def split: if_splits)

lemma outboundRules_capture: "r \<in> set (outboundRules c) \<Longrightarrow> outboundCapture r"
  by (auto simp: outboundRules_def outboundCapture_def outboundReturnRule_def
      outboundCatchAllRule_def outboundPortJumpRule_def natRule_def split: if_splits)

lemma inboundRules_not_outbound: "r \<in> set (inboundRules c) \<Longrightarrow> \<not> outboundCapture r"
  by (auto simp: inboundRules_def outboundCapture_def preroutingJumpRule_def inboundReturnRule_def
      inboundCatchAllRule_def inboundPortJumpRule_def natRule_def split: if_splits)

lemma outboundRules_not_inbound: "r \<in> set (outboundRules c) \<Longrightarrow> \<not> inboundCapture r"
  by (auto simp: inboundCapture_def dest: outboundRules_chain)

lemma baseline_not_capture:
  "\<not> inboundCapture (redirectRule p)" "\<not> outboundCapture (redirectRule p)"
  "\<not> inboundCapture (inboundRedirectRule p)" "\<not> outboundCapture (inboundRedirectRule p)"
  "\<not> inboundCapture (skipUidRule u)" "\<not> outboundCapture (skipUidRule u)"
  "\<not> inboundCapture (skipGidRule g)" "\<not> outboundCapture (skipGidRule g)"
  by (simp_all add: inboundCapture_def outboundCapture_def redirectRule_def
      inboundRedirectRule_def skipUidRule_def skipGidRule_def natRule_def)

lemma rules_table_nat:
  "r \<in> set (inboundRules c) \<Longrightarrow> table r = ''nat''"
  "r \<in> set (outboundRules c) \<Longrightarrow> table r = ''nat''"
  by (auto simp: inboundRules_def outboundRules_def rule_defs split: if_splits)

section \<open>Properties of the engine and of the command line\<close>

text \<open>
  C1. Scenario A: for the configuration with inbound capture port 9081, proxy port 9080,
  inbound include \<open>*\<close>, inbound exclude \<open>9081\<close>, outbound include empty and proxy UID and
  GID 100 (whatever its other fields), the engine emits exactly, in this order: the
  baseline redirect rule to 9080, the baseline inbound-redirect rule to 9081, the
  loopback-UID skip rule, the GID skip rule, the PREROUTING jump into the inbound chain,
  the port-22 return, the port-9081 return and the catch-all jump to the inbound-redirect
  chain; no outbound capture rule is among them.
\<close>

theorem scenarioA_emitted:
  "emitted B R d (scenarioA c) =
     [redirectRule ''9080'', inboundRedirectRule ''9081'', skipUidRule ''100'', skipGidRule ''100'',
      preroutingJumpRule, inboundReturnRule ''22'', inboundReturnRule ''9081'',
      inboundCatchAllRule]
   \<and> filter outboundCapture (emitted B R d (scenarioA c)) = []"
proof -
  have ex: "split_ports ''9081'' = [''9081'']"
    by (simp add: split_ports_def filterEmpty_def)
  have em: "emitted B R d (scenarioA c) =
     [redirectRule ''9080'', inboundRedirectRule ''9081'', skipUidRule ''100'', skipGidRule ''100'',
      preroutingJumpRule, inboundReturnRule ''22'', inboundReturnRule ''9081'',
      inboundCatchAllRule]"
    by (simp add: emitted_rules scenarioA_def inboundRules_def outboundRules_def ex)
  have "filter outboundCapture (emitted B R d (scenarioA c)) = []"
    unfolding em
    by (simp add: outboundCapture_def rule_defs)
  with em show ?thesis by simp
qed

theorem scenarioA_emitted_witness:
  "length (emitted oneCommandPerRule alwaysRuns StdoutStubDependencies
     (scenarioA (flagConfig defaultFlags))) = 8
   \<and> emitted oneCommandPerRule alwaysRuns StdoutStubDependencies
       (scenarioA (flagConfig defaultFlags)) ! 6 = inboundReturnRule ''9081''"
  using scenarioA_emitted [of oneCommandPerRule alwaysRuns StdoutStubDependencies
      "flagConfig defaultFlags"]
  by simp

text \<open>
  C2. With inbound include equal to \<open>*\<close>, the rules emitted on the inbound chain are the
  port-22 return, then one return per token of the normalized inbound exclude list in
  list order, then the catch-all jump to the inbound-redirect chain, which is the last
  rule of the chain.
\<close>

theorem wildcard_inbound_chain:
  assumes "InboundPortsInclude c = ''*''"
  shows "filter (\<lambda>r. chain r = InboundChain) (emitted B R d c) =
           inboundReturnRule ''22'' #
             map inboundReturnRule (split_ports (InboundPortsExclude c)) @ [inboundCatchAllRule]
         \<and> hd (filter (\<lambda>r. chain r = InboundChain) (emitted B R d c)) = inboundReturnRule ''22''
         \<and> last (filter (\<lambda>r. chain r = InboundChain) (emitted B R d c)) = inboundCatchAllRule"
  using assms by (simp add: inbound_chain_emitted inboundRules_chain)

theorem wildcard_inbound_chain_witness:
  "InboundPortsInclude ((flagConfig defaultFlags)
      \<lparr>InboundPortsInclude := ''*'', InboundPortsExclude := ''9081,,8443''\<rparr>) = ''*''
   \<and> filter (\<lambda>r. chain r = InboundChain)
       (emitted oneCommandPerRule alwaysRuns RealDependencies
         ((flagConfig defaultFlags)
            \<lparr>InboundPortsInclude := ''*'', InboundPortsExclude := ''9081,,8443''\<rparr>)) =
     [inboundReturnRule ''22'', inboundReturnRule ''9081'', inboundReturnRule ''8443'',
      inboundCatchAllRule]"
proof -
  have ex: "split_ports ''9081,,8443'' = [''9081'', ''8443'']"
    by (simp add: split_ports_def filterEmpty_def)
  show ?thesis
    using wildcard_inbound_chain [of "(flagConfig defaultFlags)
      \<lparr>InboundPortsInclude := ''*'', InboundPortsExclude := ''9081,,8443''\<rparr>"
      oneCommandPerRule alwaysRuns RealDependencies]
    by (simp add: ex)
qed

text \<open>
  C3. With an explicit inbound include list (neither empty nor \<open>*\<close>), the rules emitted on
  the inbound chain are one jump of that destination port to the inbound-redirect chain
  per token of the normalized list, in list order, as many as there are tokens, and the
  catch-all jump to the inbound-redirect chain is not emitted.
\<close>

theorem explicit_inbound_chain:
  assumes "InboundPortsInclude c \<noteq> []" and "InboundPortsInclude c \<noteq> ''*''"
  shows "filter (\<lambda>r. chain r = InboundChain) (emitted B R d c) =
           map inboundPortJumpRule (split_ports (InboundPortsInclude c))
         \<and> length (filter (\<lambda>r. chain r = InboundChain) (emitted B R d c)) =
             length (split_ports (InboundPortsInclude c))
         \<and> inboundCatchAllRule \<notin> set (emitted B R d c)"
proof -
  have chain_rules: "filter (\<lambda>r. chain r = InboundChain) (emitted B R d c) =
      map inboundPortJumpRule (split_ports (InboundPortsInclude c))"
    using assms by (simp add: inbound_chain_emitted inboundRules_chain)
  have "inboundCatchAllRule \<notin> set (emitted B R d c)"
  proof
    assume mem: "inboundCatchAllRule \<in> set (emitted B R d c)"
    have "chain inboundCatchAllRule = InboundChain"
      by (simp add: inboundCatchAllRule_def natRule_def InboundChain_def)
    with mem have "inboundCatchAllRule \<in> set (filter (\<lambda>r. chain r = InboundChain) (emitted B R d c))"
      by simp
    then have "inboundCatchAllRule \<in> inboundPortJumpRule ` set (split_ports (InboundPortsInclude c))"
      by (simp add: chain_rules)
    then show False
      by (auto simp: inboundCatchAllRule_def inboundPortJumpRule_def natRule_def)
  qed
  with chain_rules show ?thesis by simp
qed

theorem explicit_inbound_chain_witness:
  "InboundPortsInclude ((flagConfig defaultFlags)\<lparr>InboundPortsInclude := ''80,,443,''\<rparr>) \<noteq> []
   \<and> InboundPortsInclude ((flagConfig defaultFlags)\<lparr>InboundPortsInclude := ''80,,443,''\<rparr>) \<noteq> ''*''
   \<and> filter (\<lambda>r. chain r = InboundChain)
       (emitted oneCommandPerRule alwaysRuns RealDependencies
         ((flagConfig defaultFlags)\<lparr>InboundPortsInclude := ''80,,443,''\<rparr>)) =
     [inboundPortJumpRule ''80'', inboundPortJumpRule ''443'']"
proof -
  have ex: "split_ports ''80,,443,'' = [''80'', ''443'']"
    by (simp add: split_ports_def filterEmpty_def)
  show ?thesis
    using explicit_inbound_chain [of "(flagConfig defaultFlags)\<lparr>InboundPortsInclude := ''80,,443,''\<rparr>"
      oneCommandPerRule alwaysRuns RealDependencies]
    by (simp add: ex)
qed

text \<open>
  C4. For every configuration the loopback-UID skip rule and the GID skip rule are the
  third and the fourth emitted rule, and every inbound capture rule and every outbound
  capture rule stands after them: a rule of the emitted sequence is a capture rule exactly
  when its index is above 3.
\<close>

theorem skip_rules_first:
  "emitted B R d c ! 2 = skipUidRule (ProxyUID c)
   \<and> emitted B R d c ! 3 = skipGidRule (ProxyGID c)
   \<and> (\<forall>j < length (emitted B R d c).
         (inboundCapture (emitted B R d c ! j) \<or> outboundCapture (emitted B R d c ! j)) = (3 < j))"
proof -
  let ?es = "emitted B R d c"
  let ?tl = "inboundRules c @ outboundRules c"
  have es: "?es = redirectRule (ProxyPort c) # inboundRedirectRule (InboundCapturePort c) #
      skipUidRule (ProxyUID c) # skipGidRule (ProxyGID c) # ?tl"
    by (simp add: emitted_rules)
  have tl: "inboundCapture r \<or> outboundCapture r" if "r \<in> set ?tl" for r
    using that by (auto dest: inboundRules_capture outboundRules_capture)
  have "(inboundCapture (?es ! j) \<or> outboundCapture (?es ! j)) = (3 < j)"
    if j: "j < length ?es" for j
  proof (cases "3 < j")
    case True
    define k where "k = j - 4"
    with True have k: "j = 4 + k" by simp
    with j have "k < length ?tl" by (simp add: es)
    then have "?tl ! k \<in> set ?tl" by (rule nth_mem)
    moreover have "?es ! j = ?tl ! k" by (simp add: es k)
    ultimately show ?thesis using True tl by simp
  next
    case False
    then have "j = 0 \<or> j = 1 \<or> j = 2 \<or> j = 3" by arith
    then show ?thesis
      by (auto simp: es baseline_not_capture)
  qed
  then show ?thesis by (simp add: es)
qed


theorem skip_rules_first_witness:
  "emitted oneCommandPerRule alwaysRuns RealDependencies
     ((flagConfig defaultFlags)\<lparr>OutboundPortsInclude := ''80'', ProxyUID := ''100'',
        ProxyGID := ''101''\<rparr>) ! 2 = skipUidRule ''100''
   \<and> emitted oneCommandPerRule alwaysRuns RealDependencies
     ((flagConfig defaultFlags)\<lparr>OutboundPortsInclude := ''80'', ProxyUID := ''100'',
        ProxyGID := ''101''\<rparr>) ! 3 = skipGidRule ''101''
   \<and> 4 < length (emitted oneCommandPerRule alwaysRuns RealDependencies
     ((flagConfig defaultFlags)\<lparr>OutboundPortsInclude := ''80'', ProxyUID := ''100'',
        ProxyGID := ''101''\<rparr>))
   \<and> (inboundCapture (emitted oneCommandPerRule alwaysRuns RealDependencies
     ((flagConfig defaultFlags)\<lparr>OutboundPortsInclude := ''80'', ProxyUID := ''100'',
        ProxyGID := ''101''\<rparr>) ! 4)
      \<or> outboundCapture (emitted oneCommandPerRule alwaysRuns RealDependencies
     ((flagConfig defaultFlags)\<lparr>OutboundPortsInclude := ''80'', ProxyUID := ''100'',
        ProxyGID := ''101''\<rparr>) ! 4))"
proof -
  let ?c = "(flagConfig defaultFlags)\<lparr>OutboundPortsInclude := ''80'', ProxyUID := ''100'',
        ProxyGID := ''101''\<rparr>"
  have ex: "split_ports ''80'' = [''80'']"
    by (simp add: split_ports_def filterEmpty_def)
  have len: "4 < length (emitted oneCommandPerRule alwaysRuns RealDependencies ?c)"
    by (simp add: emitted_rules outboundRules_def ex)
  let ?es = "emitted oneCommandPerRule alwaysRuns RealDependencies ?c"
  note th = skip_rules_first [of oneCommandPerRule alwaysRuns RealDependencies ?c]
  from th have "\<forall>j < length ?es. (inboundCapture (?es ! j) \<or> outboundCapture (?es ! j)) = (3 < j)"
    by (elim conjE)
  with len have "(inboundCapture (?es ! 4) \<or> outboundCapture (?es ! 4)) = ((3::nat) < 4)"
    by blast
  with th len show ?thesis by simp
qed

text \<open>
  C5. Two configurations that differ only in the inbound exclude list give the same emitted
  rules and the same submission when the inbound include list is not \<open>*\<close>; likewise for
  the outbound exclude list when the outbound include list is not \<open>*\<close>.
\<close>

theorem exclude_inert:
  "(InboundPortsInclude c \<noteq> ''*'' \<longrightarrow>
      emitted B R d (c\<lparr>InboundPortsExclude := x\<rparr>) = emitted B R d c
      \<and> outcome B R d (c\<lparr>InboundPortsExclude := x\<rparr>) = outcome B R d c)
   \<and> (OutboundPortsInclude c \<noteq> ''*'' \<longrightarrow>
      emitted B R d (c\<lparr>OutboundPortsExclude := y\<rparr>) = emitted B R d c
      \<and> outcome B R d (c\<lparr>OutboundPortsExclude := y\<rparr>) = outcome B R d c)"
  by (simp add: outcome_commands emitted_rules inboundRules_def outboundRules_def)

theorem exclude_inert_witness:
  "InboundPortsInclude ((flagConfig defaultFlags)\<lparr>InboundPortsInclude := ''80''\<rparr>) \<noteq> ''*''
   \<and> OutboundPortsInclude ((flagConfig defaultFlags)\<lparr>InboundPortsInclude := ''80''\<rparr>) \<noteq> ''*''
   \<and> emitted oneCommandPerRule alwaysRuns RealDependencies
       ((flagConfig defaultFlags)\<lparr>InboundPortsInclude := ''80'', InboundPortsExclude := ''80''\<rparr>) =
     emitted oneCommandPerRule alwaysRuns RealDependencies
       ((flagConfig defaultFlags)\<lparr>InboundPortsInclude := ''80''\<rparr>)
   \<and> emitted oneCommandPerRule alwaysRuns RealDependencies
       ((flagConfig defaultFlags)\<lparr>InboundPortsInclude := ''80'', OutboundPortsExclude := ''443''\<rparr>) =
     emitted oneCommandPerRule alwaysRuns RealDependencies
       ((flagConfig defaultFlags)\<lparr>InboundPortsInclude := ''80''\<rparr>)"
  using exclude_inert [of "(flagConfig defaultFlags)\<lparr>InboundPortsInclude := ''80''\<rparr>"
      oneCommandPerRule alwaysRuns RealDependencies "''80''" "''443''"]
  by (simp add: flagConfig_def defaultFlags_def)

text \<open>
  C6. With an empty inbound include list the inbound phase appends nothing: no rule on
  \<^verbatim>\<open>PREROUTING\<close> or on the inbound chain is emitted. With an empty outbound include list
  the outbound phase appends nothing: no outbound capture rule is emitted.
\<close>

theorem empty_include_disables:
  "(InboundPortsInclude c = [] \<longrightarrow> filter inboundCapture (emitted B R d c) = [])
   \<and> (InboundPortsInclude (cfg ic) = [] \<longrightarrow> insertInboundRules ic = ic)
   \<and> (OutboundPortsInclude c = [] \<longrightarrow> filter outboundCapture (emitted B R d c) = [])
   \<and> (OutboundPortsInclude (cfg ic) = [] \<longrightarrow> insertOutboundRules ic = ic)"
proof -
  have "filter inboundCapture (emitted B R d c) = []" if "InboundPortsInclude c = []"
    using that
    by (auto simp: emitted_rules filter_empty_conv baseline_not_capture inboundRules_def
        dest: outboundRules_not_inbound)
  moreover have "filter outboundCapture (emitted B R d c) = []" if "OutboundPortsInclude c = []"
    using that
    by (auto simp: emitted_rules filter_empty_conv baseline_not_capture outboundRules_def
        dest: inboundRules_not_outbound)
  ultimately show ?thesis
    by (simp add: insertInboundRules_def insertOutboundRules_def)
qed

theorem empty_include_disables_witness:
  "InboundPortsInclude (flagConfig defaultFlags) = []
   \<and> OutboundPortsInclude (flagConfig defaultFlags) = []
   \<and> filter inboundCapture
       (emitted oneCommandPerRule alwaysRuns RealDependencies (flagConfig defaultFlags)) = []
   \<and> filter outboundCapture
       (emitted oneCommandPerRule alwaysRuns RealDependencies (flagConfig defaultFlags)) = []"
  using empty_include_disables [of "flagConfig defaultFlags" oneCommandPerRule alwaysRuns
      RealDependencies]
  by (simp add: flagConfig_def defaultFlags_def)

text \<open>
  C7. Scenario B: with outbound include \<open>80\<close> and the inbound include, inbound exclude and
  outbound exclude lists empty, the engine emits exactly five rules: the two baseline
  rules, the two skip rules and the jump of destination port 80 in \<^verbatim>\<open>OUTPUT\<close> to the
  redirect chain; none is an inbound rule.
\<close>

theorem scenarioB_emitted:
  assumes "OutboundPortsInclude c = ''80''" and "InboundPortsInclude c = []"
    and "InboundPortsExclude c = []" and "OutboundPortsExclude c = []"
  shows "emitted B R d c =
           [redirectRule (ProxyPort c), inboundRedirectRule (InboundCapturePort c),
            skipUidRule (ProxyUID c), skipGidRule (ProxyGID c), outboundPortJumpRule ''80'']
         \<and> length (emitted B R d c) = 5
         \<and> filter inboundCapture (emitted B R d c) = []"
proof -
  have ex: "split_ports ''80'' = [''80'']"
    by (simp add: split_ports_def filterEmpty_def)
  have em: "emitted B R d c =
           [redirectRule (ProxyPort c), inboundRedirectRule (InboundCapturePort c),
            skipUidRule (ProxyUID c), skipGidRule (ProxyGID c), outboundPortJumpRule ''80'']"
    using assms by (simp add: emitted_rules inboundRules_def outboundRules_def ex)
  have "filter inboundCapture (emitted B R d c) = []"
    unfolding em by (simp add: inboundCapture_def rule_defs)
  with em show ?thesis by simp
qed

theorem scenarioB_emitted_witness:
  "OutboundPortsInclude ((flagConfig defaultFlags)\<lparr>OutboundPortsInclude := ''80''\<rparr>) = ''80''
   \<and> emitted oneCommandPerRule alwaysRuns StdoutStubDependencies
       ((flagConfig defaultFlags)\<lparr>OutboundPortsInclude := ''80''\<rparr>) =
     [redirectRule ''9080'', inboundRedirectRule ''9081'', skipUidRule [], skipGidRule [],
      outboundPortJumpRule ''80'']"
  using scenarioB_emitted [of "(flagConfig defaultFlags)\<lparr>OutboundPortsInclude := ''80''\<rparr>"
      oneCommandPerRule alwaysRuns StdoutStubDependencies]
  by (simp add: flagConfig_def defaultFlags_def)

text \<open>
  C9. For every configuration, every emitted rule is on the \<open>nat\<close> table; the insertions
  are all IPv4 ones (the IPv6 list of the builder stays empty) and the commands submitted
  are those built from the IPv4 list; the first two emitted rules are the two baseline
  redirect-target rules.
\<close>

theorem nat_ipv4_baseline:
  "list_all (\<lambda>r. table r = ''nat'') (emitted B R d c)
   \<and> rulesv6 (iptables (fst (engine B R d c))) = []
   \<and> take 2 (emitted B R d c) =
       [redirectRule (ProxyPort c), inboundRedirectRule (InboundCapturePort c)]
   \<and> outcome B R d c = executeCommand_loop R d [] (B (emitted B R d c))"
proof -
  have "list_all (\<lambda>r. table r = ''nat'') (emitted B R d c)"
    by (auto simp: emitted_rules list_all_iff rule_defs dest: rules_table_nat)
  moreover have "outcome B R d c = executeCommand_loop R d [] (B (emitted B R d c))"
    by (rule outcome_commands)
  ultimately show ?thesis
    by (simp add: engine_fst) (simp add: emitted_rules)
qed

theorem nat_ipv4_baseline_witness:
  "map table (emitted oneCommandPerRule alwaysRuns StdoutStubDependencies
     (scenarioA (flagConfig defaultFlags))) = replicate 8 ''nat''
   \<and> take 2 (emitted oneCommandPerRule alwaysRuns StdoutStubDependencies
       (scenarioA (flagConfig defaultFlags))) = [redirectRule ''9080'', inboundRedirectRule ''9081'']"
proof -
  have ex: "split_ports ''9081'' = [''9081'']"
    by (simp add: split_ports_def filterEmpty_def)
  have "length (emitted oneCommandPerRule alwaysRuns StdoutStubDependencies
     (scenarioA (flagConfig defaultFlags))) = 8"
    by (simp add: emitted_rules scenarioA_def inboundRules_def outboundRules_def ex)
  moreover have "map table xs = replicate (length xs) ''nat''"
    if "list_all (\<lambda>r. table r = ''nat'') xs" for xs :: "Rule list"
    using that by (induction xs) simp_all
  ultimately show ?thesis
    using nat_ipv4_baseline [of oneCommandPerRule alwaysRuns StdoutStubDependencies
      "scenarioA (flagConfig defaultFlags)"]
    by (simp add: scenarioA_def)
qed

text \<open>
  C10. At the command line the proxy identity comes from one lookup of the user named by
  \<^verbatim>\<open>--apisix-user\<close> (default \<open>nobody\<close>) and from nothing else: when the lookup fails the
  command panics and no constructor, rule or command exists; when it succeeds the run is
  the engine on the flags' configuration with \<open>ProxyUID\<close> and \<open>ProxyGID\<close> set to that
  user's Uid and Gid, which the two skip rules then carry; whatever \<open>ProxyUID\<close> and
  \<open>ProxyGID\<close> the configuration held before has no effect.
\<close>

theorem newCommand_identity:
  "(\<forall>err. L (apisix_user f) = Inl err \<longrightarrow> newCommand L B R f = Inl (LookupPanic err))
   \<and> (\<forall>usr. L (apisix_user f) = Inr usr \<longrightarrow>
         newCommand L B R f =
           Inr (engine B R (if dry_run f then StdoutStubDependencies else RealDependencies)
                 ((flagConfig f)\<lparr>ProxyUID := Uid usr, ProxyGID := Gid usr\<rparr>))
         \<and> (case newCommand L B R f of
               Inl e \<Rightarrow> False
             | Inr (ic, out) \<Rightarrow>
                 ProxyUID (cfg ic) = Uid usr \<and> ProxyGID (cfg ic) = Gid usr
                 \<and> rulesv4 (iptables ic) ! 2 = skipUidRule (Uid usr)
                 \<and> rulesv4 (iptables ic) ! 3 = skipGidRule (Gid usr)))
   \<and> newCommand_Run L B R (c\<lparr>ProxyUID := a, ProxyGID := b\<rparr>) u = newCommand_Run L B R c u
   \<and> apisix_user defaultFlags = ''nobody''"
proof -
  have run_eq: "newCommand L B R f =
      Inr (engine B R (if dry_run f then StdoutStubDependencies else RealDependencies)
            ((flagConfig f)\<lparr>ProxyUID := Uid usr, ProxyGID := Gid usr\<rparr>))"
    if "L (apisix_user f) = Inr usr" for usr
    using that
    by (simp add: newCommand_def newCommand_Run_def Let_def engine_def flagConfig_def)
  have fst_eq: "fst (engine B R d' c') =
      \<lparr>iptables = \<lparr>rulesv4 = redirectRule (ProxyPort c') #
          inboundRedirectRule (InboundCapturePort c') # skipUidRule (ProxyUID c') #
          skipGidRule (ProxyGID c') # inboundRules c' @ outboundRules c', rulesv6 = []\<rparr>,
        cfg = c', dep = d'\<rparr>" for d' c'
    by (simp add: engine_fst)
  have ident: "(case newCommand L B R f of
               Inl e \<Rightarrow> False
             | Inr (ic, out) \<Rightarrow>
                 ProxyUID (cfg ic) = Uid usr \<and> ProxyGID (cfg ic) = Gid usr
                 \<and> rulesv4 (iptables ic) ! 2 = skipUidRule (Uid usr)
                 \<and> rulesv4 (iptables ic) ! 3 = skipGidRule (Gid usr))"
    if "L (apisix_user f) = Inr usr" for usr
    unfolding run_eq [OF that]
    by (simp add: case_prod_beta fst_eq)
  have fail: "newCommand L B R f = Inl (LookupPanic err)" if "L (apisix_user f) = Inl err" for err
    using that by (simp add: newCommand_def newCommand_Run_def Let_def)
  have indep: "newCommand_Run L B R (c\<lparr>ProxyUID := a, ProxyGID := b\<rparr>) u = newCommand_Run L B R c u"
    by (simp add: newCommand_Run_def Let_def split: sum.splits)
  have "apisix_user defaultFlags = ''nobody''"
    by (simp add: defaultFlags_def)
  with run_eq ident fail indep show ?thesis by blast
qed

theorem newCommand_identity_witness:
  "exampleLookup (apisix_user defaultFlags) = Inr \<lparr>Uid = ''65534'', Gid = ''65534''\<rparr>
   \<and> map_sum id (\<lambda>r. take 4 (rulesv4 (iptables (fst r))))
        (newCommand exampleLookup oneCommandPerRule alwaysRuns defaultFlags) =
      Inr [redirectRule ''9080'', inboundRedirectRule ''9081'', skipUidRule ''65534'',
           skipGidRule ''65534'']
   \<and> exampleLookup (apisix_user (defaultFlags\<lparr>apisix_user := ''apisix''\<rparr>)) =
        Inl ''user: unknown user apisix''
   \<and> newCommand exampleLookup oneCommandPerRule alwaysRuns
        (defaultFlags\<lparr>apisix_user := ''apisix''\<rparr>) =
      Inl (LookupPanic ''user: unknown user apisix'')"
proof -
  have ok: "exampleLookup (apisix_user defaultFlags) = Inr \<lparr>Uid = ''65534'', Gid = ''65534''\<rparr>"
    by (simp add: exampleLookup_def defaultFlags_def)
  have bad: "exampleLookup (apisix_user (defaultFlags\<lparr>apisix_user := ''apisix''\<rparr>)) =
        Inl ''user: unknown user apisix''"
    by (simp add: exampleLookup_def)
  note a = newCommand_identity [of exampleLookup defaultFlags oneCommandPerRule alwaysRuns]
  note b = newCommand_identity [of exampleLookup "defaultFlags\<lparr>apisix_user := ''apisix''\<rparr>"
      oneCommandPerRule alwaysRuns]
  from a ok have "newCommand exampleLookup oneCommandPerRule alwaysRuns defaultFlags =
      Inr (engine oneCommandPerRule alwaysRuns
           (if dry_run defaultFlags then StdoutStubDependencies else RealDependencies)
           ((flagConfig defaultFlags)\<lparr>ProxyUID := ''65534'', ProxyGID := ''65534''\<rparr>))"
    by simp
  then have first: "map_sum id (\<lambda>r. take 4 (rulesv4 (iptables (fst r))))
        (newCommand exampleLookup oneCommandPerRule alwaysRuns defaultFlags) =
      Inr [redirectRule ''9080'', inboundRedirectRule ''9081'', skipUidRule ''65534'',
           skipGidRule ''65534'']"
    by (simp add: engine_fst flagConfig_def defaultFlags_def)
  from b bad have "newCommand exampleLookup oneCommandPerRule alwaysRuns
        (defaultFlags\<lparr>apisix_user := ''apisix''\<rparr>) =
      Inl (LookupPanic ''user: unknown user apisix'')"
    by blast
  with ok bad first show ?thesis by simp
qed

end
